theory Spec2Isabelle
  imports Complex_Main "HOL-Library.Word"
begin

section \<open>The OpenRouter client: error classification, retry and request handling\<close>

text \<open>
  A shallow embedding of \<^verbatim>\<open>pkg/openrouter\<close>: the structured error type
  (\<^verbatim>\<open>OpenRouterError\<close>), the classifier \<^verbatim>\<open>categorizeError\<close>,
  \<^verbatim>\<open>ParseError\<close>, the wrappers for network and context errors, the retry
  executor \<^verbatim>\<open>WithRetry\<close> and the response handling of \<^verbatim>\<open>doRequest\<close>.

  Go's \<^verbatim>\<open>int\<close> status codes and attempt counters are never subject to arithmetic
  that could overflow here (they are only compared, and the attempt counter stops at
  \<^verbatim>\<open>MaxRetries\<close>), so they are \<open>int\<close>. A \<^verbatim>\<open>time.Duration\<close> is an
  \<^verbatim>\<open>int64\<close> count of nanoseconds whose multiplication wraps around: it is a
  \<open>64 word\<close>, read as a signed number with \<open>sint\<close>.
\<close>

subsection \<open>Durations\<close>

type_synonym Duration = "64 word"

definition Millisecond :: Duration where
  "Millisecond = 1000000"

definition Second :: Duration where
  "Second = 1000000000"

subsection \<open>Errors\<close>

text \<open>
  A Go \<^verbatim>\<open>error\<close> is an interface value. The dynamic types that occur in the package
  are: \<^verbatim>\<open>*OpenRouterError\<close>; the two context errors; an error that only carries a text
  (\<^verbatim>\<open>errors.New\<close>, \<^verbatim>\<open>fmt.Errorf\<close> without \<^verbatim>\<open>%w\<close>, errors of
  the transport); and \<^verbatim>\<open>fmt.Errorf("prefix: %w", err)\<close>, which wraps a cause.
\<close>

datatype ctx_error = Canceled | DeadlineExceeded

datatype OpenRouterError = OpenRouterError
    (StatusCode: int)
    (ErrorCode: string)
    (ErrorType: string)
    (Message: string)
    (UserMessage: string)
    (IsRetryable: bool)
    (RetryAfter: Duration)
    (OriginalErr: "error option")
and error =
    Structured OpenRouterError
  | CtxErr ctx_error
  | ErrorString string
  | Errorf string error

subsection \<open>Library functions the package calls\<close>

text \<open>
  \<^verbatim>\<open>strings.ToLower\<close> (which consults the Unicode tables on input that is not ASCII),
  \<^verbatim>\<open>json.Unmarshal\<close> into an \<^verbatim>\<open>ErrorResponse\<close> and
  \<^verbatim>\<open>http.StatusText\<close> belong to Go's standard library, not to this repository.
  The functions below take them as a parameter, so that what is proved holds for every
  behaviour of the three. \<open>Unmarshal\<close> returns \<open>None\<close> where
  \<^verbatim>\<open>json.Unmarshal\<close> returns an error.
\<close>

record ErrorDetail =
  Code :: string
  Message :: string
  Type :: string
  Param :: string

record ErrorResponse =
  ErrorDetail :: ErrorDetail

record golib =
  ToLower :: "string \<Rightarrow> string"
  Unmarshal :: "string \<Rightarrow> ErrorResponse option"
  StatusText :: "int \<Rightarrow> string"

text \<open>\<^verbatim>\<open>strings.Contains\<close>: the second string occurs in the first as a block of bytes.\<close>

fun HasPrefix :: "string \<Rightarrow> string \<Rightarrow> bool" where
  "HasPrefix s [] = True"
| "HasPrefix [] (p # ps) = False"
| "HasPrefix (c # cs) (p # ps) = (c = p \<and> HasPrefix cs ps)"

fun Contains :: "string \<Rightarrow> string \<Rightarrow> bool" where
  "Contains [] substr = (substr = [])"
| "Contains (c # cs) substr = (HasPrefix (c # cs) substr \<or> Contains cs substr)"

text \<open>
  \<^verbatim>\<open>strconv.Atoi\<close> on a 64-bit platform: an optional sign, then one or more decimal
  digits and nothing else; a value outside the \<^verbatim>\<open>int64\<close> range is an error
  (\<open>None\<close>), as is every other text.
\<close>

definition is_digit :: "char \<Rightarrow> bool" where
  "is_digit c = (48 \<le> (of_char c :: nat) \<and> (of_char c :: nat) \<le> 57)"

definition digit_val :: "char \<Rightarrow> int" where
  "digit_val c = int (of_char c) - 48"

definition Atoi :: "string \<Rightarrow> int option" where
  "Atoi s =
     (let neg = (s \<noteq> [] \<and> hd s = CHR ''-'');
          ds = (if s \<noteq> [] \<and> (hd s = CHR ''-'' \<or> hd s = CHR ''+'') then tl s else s)
      in if ds = [] \<or> \<not> list_all is_digit ds then None
         else let n = foldl (\<lambda>a c. a * 10 + digit_val c) 0 ds;
                  v = (if neg then - n else n)
              in if v < - (2 ^ 63) \<or> 2 ^ 63 - 1 < v then None else Some v)"

text \<open>
  \<^verbatim>\<open>http.Header\<close> maps a canonical key to the list of its values, and
  \<^verbatim>\<open>Get\<close> returns the first value of the key, or the empty string. The only key
  the package reads, \<^verbatim>\<open>Retry-After\<close>, is already in canonical form.
\<close>

type_synonym Header = "string \<rightharpoonup> string list"

definition Header_Get :: "Header \<Rightarrow> string \<Rightarrow> string" where
  "Header_Get h key = (case h key of None \<Rightarrow> [] | Some [] \<Rightarrow> [] | Some (v # vs) \<Rightarrow> v)"

subsection \<open>The classifier\<close>

text \<open>
  \<^verbatim>\<open>categorizeError\<close> starts from the zero values of its three results, runs the
  \<^verbatim>\<open>switch\<close> on the status code and then the \<^verbatim>\<open>switch\<close> on the
  lower-cased error type, which overwrites what the first one assigned.
\<close>

definition status_table :: "golib \<Rightarrow> int \<Rightarrow> string \<Rightarrow> Header \<Rightarrow> bool \<times> string \<times> Duration" where
  "status_table lib statusCode errorCode headers =
     (if statusCode = 401 then
        (False, ''Authentication failed. Please check your OpenRouter API key.'', 0)
      else if statusCode = 403 then
        (if Contains (ToLower lib errorCode) ''insufficient''
            \<or> Contains (ToLower lib errorCode) ''credit''
            \<or> Contains (ToLower lib errorCode) ''balance''
         then (False, ''Insufficient credits. Please add credits to your OpenRouter account.'', 0)
         else (False, ''Access forbidden. Please check your API permissions.'', 0))
      else if statusCode = 404 then
        (if Contains (ToLower lib errorCode) ''model''
         then (False, ''The requested AI model is not available. Please try a different model.'', 0)
         else (False, ''The requested resource was not found.'', 0))
      else if statusCode = 429 then
        (let retryAfterStr = Header_Get headers ''Retry-After'';
             retryAfter =
               (if retryAfterStr \<noteq> [] then
                  (case Atoi retryAfterStr of
                     Some seconds \<Rightarrow> word_of_int seconds * Second
                   | None \<Rightarrow> 0)
                else 0)
         in (True, ''Rate limit exceeded. Please wait a moment before trying again.'',
             if retryAfter = 0 then 60 * Second else retryAfter))
      else if statusCode = 400 then
        (if ToLower lib errorCode = ''invalid_request_error'' then
           (False, ''Invalid request. Please check your input parameters.'', 0)
         else if ToLower lib errorCode = ''model_not_found'' then
           (False, ''The specified AI model was not found. Please check the model name.'', 0)
         else if ToLower lib errorCode = ''context_length_exceeded'' then
           (False, ''Your message is too long. Please try with a shorter message.'', 0)
         else (False, ''Bad request. Please check your input and try again.'', 0))
      else if statusCode = 500 then
        (True, ''OpenRouter service is temporarily unavailable. Please try again in a few moments.'', 0)
      else if statusCode = 502 then
        (True, ''OpenRouter gateway error. Please try again in a few moments.'', 0)
      else if statusCode = 503 then
        (True, ''OpenRouter service is temporarily unavailable. Please try again later.'', 30 * Second)
      else if statusCode = 504 then
        (True, ''Request timed out. Please try again.'', 0)
      else if statusCode \<ge> 500 then
        (True, ''OpenRouter service error. Please try again later.'', 0)
      else if statusCode \<ge> 400 then
        (False, ''Request error. Please check your input and try again.'', 0)
      else (False, ''An unexpected error occurred.'', 0))"

definition categorizeError ::
    "golib \<Rightarrow> int \<Rightarrow> string \<Rightarrow> string \<Rightarrow> Header \<Rightarrow> bool \<times> string \<times> Duration" where
  "categorizeError lib statusCode errorCode errorType headers =
     (case status_table lib statusCode errorCode headers of
        (isRetryable, userMessage, retryAfter) \<Rightarrow>
          if ToLower lib errorType = ''insufficient_quota'' then
            (False, ''Insufficient quota. Please check your OpenRouter account limits.'', retryAfter)
          else if ToLower lib errorType = ''model_overloaded'' then
            (True, ''The AI model is currently overloaded. Please try again in a few moments.'',
             30 * Second)
          else if ToLower lib errorType = ''model_unavailable'' then
            (True, ''The AI model is temporarily unavailable. Please try a different model or wait a few moments.'',
             60 * Second)
          else (isRetryable, userMessage, retryAfter))"

subsection \<open>Building structured errors\<close>

text \<open>
  Of an \<^verbatim>\<open>http.Response\<close> the package reads the status code, the headers and the
  body; \<open>Body\<close> is what \<^verbatim>\<open>io.ReadAll(resp.Body)\<close> returns, the bytes or an
  error.
\<close>

record Response =
  StatusCode :: int
  Header :: Header
  Body :: "error + string"

definition ParseError :: "golib \<Rightarrow> Response \<Rightarrow> string \<Rightarrow> OpenRouterError" where
  "ParseError lib resp body =
     (case (case Unmarshal lib body of
              Some errorResp \<Rightarrow>
                if ErrorDetail.Message (ErrorDetail errorResp) \<noteq> [] then
                  (Code (ErrorDetail errorResp), Type (ErrorDetail errorResp),
                   ErrorDetail.Message (ErrorDetail errorResp))
                else ([], [], if body \<noteq> [] then body else StatusText lib (Response.StatusCode resp))
            | None \<Rightarrow>
                ([], [], if body \<noteq> [] then body else StatusText lib (Response.StatusCode resp)))
      of (errorCode, errorType, message) \<Rightarrow>
        (case categorizeError lib (Response.StatusCode resp) errorCode errorType (Header resp) of
           (isRetryable, userMessage, retryAfter) \<Rightarrow>
             OpenRouterError (Response.StatusCode resp) errorCode errorType message
               userMessage isRetryable retryAfter None))"

text \<open>\<^verbatim>\<open>%d\<close> of an integer, for the texts of the errors.\<close>

function digits10 :: "nat \<Rightarrow> string" where
  "digits10 n =
     (if n < 10 then [''0123456789'' ! n] else digits10 (n div 10) @ [''0123456789'' ! (n mod 10)])"
  by pat_completeness auto
termination
  by (relation "measure id") auto

declare digits10.simps [simp del]

definition Itoa :: "int \<Rightarrow> string" where
  "Itoa i = (if i < 0 then CHR ''-'' # digits10 (nat (- i)) else digits10 (nat i))"

fun OpenRouterError_Error :: "OpenRouterError \<Rightarrow> string"
  and Error :: "error \<Rightarrow> string" where
  "OpenRouterError_Error (OpenRouterError statusCode errorCode errorType message userMessage
       isRetryable retryAfter originalErr) =
     ''OpenRouter API error (status: '' @ Itoa statusCode @ '', code: '' @ errorCode @ ''): ''
       @ message
       @ (case originalErr of None \<Rightarrow> [] | Some e \<Rightarrow> '' (original: '' @ Error e @ '')'')"
| "Error (Structured e) = OpenRouterError_Error e"
| "Error (CtxErr Canceled) = ''context canceled''"
| "Error (CtxErr DeadlineExceeded) = ''context deadline exceeded''"
| "Error (ErrorString s) = s"
| "Error (Errorf prefix e) = prefix @ Error e"

definition GetUserMessage :: "OpenRouterError \<Rightarrow> string" where
  "GetUserMessage e =
     (if UserMessage e \<noteq> [] then UserMessage e else OpenRouterError.Message e)"

definition WrapNetworkError :: "error \<Rightarrow> OpenRouterError" where
  "WrapNetworkError err =
     OpenRouterError 0 ''network_error'' ''network_error'' (Error err)
       ''Network error occurred. Please check your internet connection and try again.''
       True 0 (Some err)"

definition WrapContextError :: "error \<Rightarrow> OpenRouterError" where
  "WrapContextError err =
     OpenRouterError 0 ''context_error'' ''context_error'' (Error err)
       (if err = CtxErr DeadlineExceeded then ''Request timed out. Please try again.''
        else ''Request was cancelled.'')
       (err = CtxErr DeadlineExceeded) 0 (Some err)"

definition IsRetryableError :: "error \<Rightarrow> bool" where
  "IsRetryableError err = (case err of Structured orErr \<Rightarrow> IsRetryable orErr | _ \<Rightarrow> False)"

subsection \<open>The retry executor\<close>

text \<open>
  \<^verbatim>\<open>BackoffFactor\<close> is a \<^verbatim>\<open>float64\<close>. The executor never computes with it: it
  hands the configuration to \<^verbatim>\<open>calculateDelay\<close>. The field is carried as a real
  number.
\<close>

record RetryConfig =
  MaxRetries :: int
  BaseDelay :: Duration
  MaxDelay :: Duration
  BackoffFactor :: real
  JitterEnabled :: bool

definition DefaultRetryConfig :: RetryConfig where
  "DefaultRetryConfig =
     \<lparr>MaxRetries = 3, BaseDelay = 1 * Second, MaxDelay = 30 * Second,
      BackoffFactor = 2, JitterEnabled = True\<rparr>"

text \<open>
  What \<^verbatim>\<open>WithRetry\<close> runs against, over a state \<open>'s\<close> of the world outside:
  \<^item> \<open>fn\<close>, the \<^verbatim>\<open>RetryableFunc\<close>: a closure that returns \<^verbatim>\<open>nil\<close>
    (\<open>None\<close>) or an error and may change the world;
  \<^item> \<open>calculateDelay\<close>: the source computes the delay in \<^verbatim>\<open>float64\<close> arithmetic
    (\<^verbatim>\<open>math.Pow\<close>) and, with jitter, from \<^verbatim>\<open>rand.Float64()\<close>; the
    executor only passes its result on to the timer, so it is a parameter here;
  \<^item> \<open>wait d\<close>, the \<^verbatim>\<open>select\<close> between \<^verbatim>\<open>ctx.Done()\<close> and
    \<^verbatim>\<open>time.After(d)\<close>: \<open>Some c\<close> when the context is done first, where \<open>c\<close> is
    \<^verbatim>\<open>ctx.Err()\<close>, and \<open>None\<close> when the timer fires.
  The calls of the logger write log lines and decide nothing; they are left out.
\<close>

record 's retry_env =
  fn :: "'s \<Rightarrow> error option \<times> 's"
  calculateDelay :: "int \<Rightarrow> RetryConfig \<Rightarrow> 's \<Rightarrow> Duration \<times> 's"
  wait :: "Duration \<Rightarrow> 's \<Rightarrow> ctx_error option \<times> 's"

text \<open>
  The \<^verbatim>\<open>for\<close> loop, with the attempt counter and \<^verbatim>\<open>lastErr\<close> as arguments.
  \<^verbatim>\<open>break\<close> leaves the loop for \<^verbatim>\<open>return lastErr\<close>, which at that point is
  the error just returned by \<open>fn\<close>.
\<close>

function WithRetry_loop ::
    "'s retry_env \<Rightarrow> RetryConfig \<Rightarrow> int \<Rightarrow> error option \<Rightarrow> 's \<Rightarrow> error option \<times> 's" where
  "WithRetry_loop env config attempt lastErr s =
     (if attempt \<le> MaxRetries config then
        (case fn env s of
           (None, s1) \<Rightarrow> (None, s1)
         | (Some err, s1) \<Rightarrow>
             if attempt = MaxRetries config then (Some err, s1)
             else
               (case err of
                  Structured orErr \<Rightarrow>
                    if \<not> IsRetryable orErr then (Some err, s1)
                    else if 0 < sint (RetryAfter orErr) then
                      (case wait env (RetryAfter orErr) s1 of
                         (Some c, s2) \<Rightarrow> (Some (CtxErr c), s2)
                       | (None, s2) \<Rightarrow> WithRetry_loop env config (attempt + 1) (Some err) s2)
                    else
                      (case calculateDelay env attempt config s1 of
                         (delay, s2) \<Rightarrow>
                           (case wait env delay s2 of
                              (Some c, s3) \<Rightarrow> (Some (CtxErr c), s3)
                            | (None, s3) \<Rightarrow> WithRetry_loop env config (attempt + 1) (Some err) s3))
                | _ \<Rightarrow>
                    (case calculateDelay env attempt config s1 of
                       (delay, s2) \<Rightarrow>
                         (case wait env delay s2 of
                            (Some c, s3) \<Rightarrow> (Some (CtxErr c), s3)
                          | (None, s3) \<Rightarrow> WithRetry_loop env config (attempt + 1) (Some err) s3))))
      else (lastErr, s))"
  by pat_completeness auto
termination
  by (relation "measure (\<lambda>(env, config, attempt, lastErr, s). nat (MaxRetries config + 1 - attempt))")
     auto

declare WithRetry_loop.simps [simp del]

text \<open>A \<^verbatim>\<open>nil\<close> configuration (\<open>None\<close>) is replaced by the default one.\<close>

definition WithRetry :: "'s retry_env \<Rightarrow> RetryConfig option \<Rightarrow> 's \<Rightarrow> error option \<times> 's" where
  "WithRetry env config s =
     WithRetry_loop env (case config of None \<Rightarrow> DefaultRetryConfig | Some c \<Rightarrow> c) 0 None s"

subsection \<open>Handling the response of a request\<close>

text \<open>
  \<^verbatim>\<open>doRequest\<close>, from the outcome of \<^verbatim>\<open>c.httpClient.Do(req)\<close>: an error of the
  transport (\<open>Inl\<close>) or a response. \<open>result\<close> is \<open>None\<close> for a \<^verbatim>\<open>nil\<close> result
  pointer, else the decoder of the success body (\<^verbatim>\<open>json.Unmarshal(body, result)\<close>).
  The function returns the error, or the decoded result (\<open>Inr None\<close> when there was
  nothing to decode into).
\<close>

definition doRequest ::
    "golib \<Rightarrow> (string \<Rightarrow> error + 'r) option \<Rightarrow> error + Response \<Rightarrow> error + 'r option" where
  "doRequest lib result outcome =
     (case outcome of
        Inl err \<Rightarrow> Inl (Errorf ''request failed: '' err)
      | Inr resp \<Rightarrow>
          (case Body resp of
             Inl err \<Rightarrow> Inl (Errorf ''failed to read response body: '' err)
           | Inr body \<Rightarrow>
               if Response.StatusCode resp \<ge> 400 then
                 (case Unmarshal lib body of
                    None \<Rightarrow>
                      Inl (ErrorString (''HTTP '' @ Itoa (Response.StatusCode resp) @ '': '' @ body))
                  | Some errorResp \<Rightarrow> Inl (Structured (ParseError lib resp body)))
               else
                 (case result of
                    None \<Rightarrow> Inr None
                  | Some decode \<Rightarrow>
                      (case decode body of
                         Inl err \<Rightarrow> Inl (Errorf ''failed to unmarshal response: '' err)
                       | Inr r \<Rightarrow> Inr (Some r)))))"

subsection \<open>Observing a run of the executor\<close>

text \<open>
  The tests of the package count the calls of the operation with a counter in the
  closure. \<open>recording\<close> does the same for any environment: the world is paired with a
  trace, to which every call of the operation appends its result and every wait its
  duration and outcome.
\<close>

datatype event = Invoked "error option" | Waited Duration "ctx_error option"

definition recording :: "'s retry_env \<Rightarrow> (event list \<times> 's) retry_env" where
  "recording env =
     \<lparr>fn = (\<lambda>(tr, s). case fn env s of (r, s') \<Rightarrow> (r, (tr @ [Invoked r], s'))),
      calculateDelay = (\<lambda>attempt config (tr, s).
         case calculateDelay env attempt config s of (d, s') \<Rightarrow> (d, (tr, s'))),
      wait = (\<lambda>d (tr, s). case wait env d s of (c, s') \<Rightarrow> (c, (tr @ [Waited d c], s')))\<rparr>"

fun invocations :: "event list \<Rightarrow> error option list" where
  "invocations [] = []"
| "invocations (Invoked r # es) = r # invocations es"
| "invocations (Waited d c # es) = invocations es"

subsection \<open>A concrete library for the examples\<close>

text \<open>
  \<^verbatim>\<open>strings.ToLower\<close> on ASCII text; \<^verbatim>\<open>json.Unmarshal\<close> on the bodies that occur in
  the examples: the envelope of the package's tests, the empty object, and text that is
  not JSON (every other body is treated as such); \<^verbatim>\<open>http.StatusText\<close> on the codes
  that occur.
\<close>

definition lower_char :: "char \<Rightarrow> char" where
  "lower_char c =
     (case map_of (zip ''ABCDEFGHIJKLMNOPQRSTUVWXYZ'' ''abcdefghijklmnopqrstuvwxyz'') c of
        Some l \<Rightarrow> l
      | None \<Rightarrow> c)"

definition quoted :: "string \<Rightarrow> string" where
  "quoted s = CHR 0x22 # s @ [CHR 0x22]"

text \<open>
  The body
  \<^verbatim>\<open>{"error":{"code":"rate_limit_exceeded","message":"Rate limit exceeded","type":"rate_limit_exceeded"}}\<close>
  of the package's tests.
\<close>

definition rate_limit_body :: string where
  "rate_limit_body =
     ''{'' @ quoted ''error'' @ '':{''
       @ quoted ''code'' @ '':'' @ quoted ''rate_limit_exceeded'' @ '',''
       @ quoted ''message'' @ '':'' @ quoted ''Rate limit exceeded'' @ '',''
       @ quoted ''type'' @ '':'' @ quoted ''rate_limit_exceeded'' @ ''}}''"

definition sample_Unmarshal :: "string \<Rightarrow> ErrorResponse option" where
  "sample_Unmarshal body =
     (if body = rate_limit_body
      then Some \<lparr>ErrorDetail = \<lparr>Code = ''rate_limit_exceeded'', Message = ''Rate limit exceeded'',
                    Type = ''rate_limit_exceeded'', Param = []\<rparr>\<rparr>
      else if body = ''{}''
      then Some \<lparr>ErrorDetail = \<lparr>Code = [], Message = [], Type = [], Param = []\<rparr>\<rparr>
      else None)"

definition sample_StatusText :: "int \<Rightarrow> string" where
  "sample_StatusText code =
     (if code = 400 then ''Bad Request''
      else if code = 401 then ''Unauthorized''
      else if code = 429 then ''Too Many Requests''
      else if code = 502 then ''Bad Gateway''
      else if code = 503 then ''Service Unavailable''
      else [])"

definition sample_lib :: golib where
  "sample_lib =
     \<lparr>ToLower = map lower_char, Unmarshal = sample_Unmarshal, StatusText = sample_StatusText\<rparr>"

definition sample_config :: "int \<Rightarrow> RetryConfig" where
  "sample_config n =
     \<lparr>MaxRetries = n, BaseDelay = 100 * Millisecond, MaxDelay = 1 * Second,
      BackoffFactor = 2, JitterEnabled = False\<rparr>"

text \<open>
  The operations of the package's tests: a closure that counts its calls (the state) and
  always returns the same error. The wait either always ends with the timer
  (\<open>cancel = None\<close>) or always with the context (\<open>cancel = Some c\<close>); the delay of
  the backoff stands in for \<^verbatim>\<open>calculateDelay\<close> at attempt 0 without jitter.
\<close>

definition sample_env :: "error \<Rightarrow> ctx_error option \<Rightarrow> nat retry_env" where
  "sample_env err cancel =
     \<lparr>fn = (\<lambda>callCount. (Some err, callCount + 1)),
      calculateDelay = (\<lambda>attempt config s. (BaseDelay config, s)),
      wait = (\<lambda>d s. (cancel, s))\<rparr>"

definition retryable_error :: OpenRouterError where
  "retryable_error = OpenRouterError 0 [] [] ''Always fails'' [] True 0 None"

definition rate_limit_error :: OpenRouterError where
  "rate_limit_error =
     OpenRouterError 429 [] [] ''Rate limit exceeded'' [] True (60 * Second) None"

definition fatal_error :: OpenRouterError where
  "fatal_error = OpenRouterError 0 [] [] ''Non-retryable error'' [] False 0 None"

subsection \<open>Notions used in the statements about the executor\<close>

text \<open>
  An operation that fails with a retryable structured error whenever it is called, and
  a context that is never done while the executor waits.
\<close>

definition always_retryable :: "'s retry_env \<Rightarrow> bool" where
  "always_retryable env =
     (\<forall>s. \<exists>orErr s'. fn env s = (Some (Structured orErr), s') \<and> IsRetryable orErr)"

definition never_cancelled :: "'s retry_env \<Rightarrow> bool" where
  "never_cancelled env = (\<forall>d s. fst (wait env d s) = None)"

text \<open>
  One iteration of the loop in two parts: whether the executor stops with the error
  of the operation, and otherwise the wait before the next attempt, with the duration
  that it waits for.
\<close>

definition gives_up :: "RetryConfig \<Rightarrow> int \<Rightarrow> error \<Rightarrow> bool" where
  "gives_up config attempt err =
     (attempt = MaxRetries config
      \<or> (case err of Structured orErr \<Rightarrow> \<not> IsRetryable orErr | _ \<Rightarrow> False))"

definition wait_step ::
    "'s retry_env \<Rightarrow> RetryConfig \<Rightarrow> int \<Rightarrow> error \<Rightarrow> 's \<Rightarrow> Duration \<times> ctx_error option \<times> 's" where
  "wait_step env config attempt err s1 =
     (if (case err of Structured orErr \<Rightarrow> 0 < sint (RetryAfter orErr) | _ \<Rightarrow> False)
      then (case err of
              Structured orErr \<Rightarrow> (RetryAfter orErr, wait env (RetryAfter orErr) s1)
            | _ \<Rightarrow> (0, wait env 0 s1))
      else (case calculateDelay env attempt config s1 of
              (delay, s2) \<Rightarrow> (delay, wait env delay s2)))"


section \<open>Properties of the classifier\<close>

lemma Atoi_Nil: "Atoi [] = None"
  by (simp add: Atoi_def)

text \<open>The status table alone sets a delay only together with the retry flag.\<close>

lemma status_table_retryAfter:
  "status_table lib statusCode errorCode headers = (r, m, a) \<Longrightarrow> a \<noteq> 0 \<Longrightarrow> r"
  by (auto simp: status_table_def Let_def split: if_splits)

lemma status_table_retryAfter_zero:
  "statusCode \<noteq> 429 \<Longrightarrow> statusCode \<noteq> 503 \<Longrightarrow>
   status_table lib statusCode errorCode headers = (r, m, a) \<Longrightarrow> a = 0"
  by (auto simp: status_table_def Let_def split: if_splits)

text \<open>
  After the second switch this still holds, except where the error type is
  \<^verbatim>\<open>insufficient_quota\<close> and the status is 429 or 503.
\<close>

lemma categorizeError_retryAfter_pos:
  assumes h: "\<not> (ToLower lib errorType = ''insufficient_quota'' \<and> (statusCode = 429 \<or> statusCode = 503))"
    and pos: "0 < sint (snd (snd (categorizeError lib statusCode errorCode errorType headers)))"
  shows "fst (categorizeError lib statusCode errorCode errorType headers)"
proof -
  obtain r m a where st: "status_table lib statusCode errorCode headers = (r, m, a)"
    by (cases "status_table lib statusCode errorCode headers") auto
  show ?thesis
  proof (cases "ToLower lib errorType = ''insufficient_quota''")
    case True
    with h have "statusCode \<noteq> 429" "statusCode \<noteq> 503" by auto
    then have "a = 0" using st by (rule status_table_retryAfter_zero)
    with True st pos show ?thesis by (simp add: categorizeError_def)
  next
    case notQuota: False
    show ?thesis
    proof (cases "ToLower lib errorType = ''model_overloaded''
                  \<or> ToLower lib errorType = ''model_unavailable''")
      case True
      with notQuota st show ?thesis by (auto simp: categorizeError_def)
    next
      case False
      with notQuota st pos have "0 < sint a" by (simp add: categorizeError_def)
      then have "a \<noteq> 0" by auto
      with st have r by (rule status_table_retryAfter)
      with notQuota False st show ?thesis by (simp add: categorizeError_def)
    qed
  qed
qed

text \<open>\<^verbatim>\<open>ParseError\<close> fills the three derived fields from the classifier.\<close>

lemma ParseError_fields:
  "OpenRouterError.StatusCode (ParseError lib resp body) = Response.StatusCode resp
   \<and> (IsRetryable (ParseError lib resp body), UserMessage (ParseError lib resp body),
        RetryAfter (ParseError lib resp body)) =
       categorizeError lib (Response.StatusCode resp) (ErrorCode (ParseError lib resp body))
         (ErrorType (ParseError lib resp body)) (Header resp)"
  by (simp add: ParseError_def split: option.splits prod.splits)

lemma ParseError_retryAfter_pos:
  assumes h: "\<not> (ToLower lib (ErrorType (ParseError lib resp body)) = ''insufficient_quota''
               \<and> (Response.StatusCode resp = 429 \<or> Response.StatusCode resp = 503))"
    and pos: "0 < sint (RetryAfter (ParseError lib resp body))"
  shows "IsRetryable (ParseError lib resp body)"
proof -
  let ?e = "ParseError lib resp body"
  let ?c = "categorizeError lib (Response.StatusCode resp) (ErrorCode ?e) (ErrorType ?e) (Header resp)"
  from ParseError_fields [of lib resp body]
  have eq: "(IsRetryable ?e, UserMessage ?e, RetryAfter ?e) = ?c" by simp
  then have "snd (snd ?c) = RetryAfter ?e" and r: "fst ?c = IsRetryable ?e"
    by (metis snd_conv, metis fst_conv)
  with pos have "0 < sint (snd (snd ?c))" by simp
  with h have "fst ?c" by (rule categorizeError_retryAfter_pos)
  with r show ?thesis by simp
qed

text \<open>
  The arm of the second switch for \<^verbatim>\<open>insufficient_quota\<close> assigns the message and
  the retry flag only: the delay stays what the status table made it. The arms for
  \<^verbatim>\<open>model_overloaded\<close> and \<^verbatim>\<open>model_unavailable\<close> assign all three results.
\<close>

lemma categorizeError_quota_leftover:
  "ToLower lib errorType = ''insufficient_quota'' \<Longrightarrow>
   categorizeError lib statusCode errorCode errorType headers =
     (False, ''Insufficient quota. Please check your OpenRouter account limits.'',
      snd (snd (status_table lib statusCode errorCode headers)))"
  by (cases "status_table lib statusCode errorCode headers") (simp add: categorizeError_def)

text \<open>
  Claim C1. The claim is that, for every input of the classifier, a positive
  \<open>retryAfter\<close> implies \<open>isRetryable\<close>. The classifier breaks it where the error type is
  \<^verbatim>\<open>insufficient_quota\<close> and the status table has set a delay: at status 429 without
  a \<^verbatim>\<open>Retry-After\<close> header the answer is not retryable with a delay of 60 seconds,
  and at status 503 it is not retryable with a delay of 30 seconds. Both delays are
  positive.
\<close>

theorem categorizeError_quota_retryAfter:
  "categorizeError sample_lib 429 [] ''insufficient_quota'' Map.empty =
     (False, ''Insufficient quota. Please check your OpenRouter account limits.'', 60 * Second)
   \<and> 0 < sint (60 * Second :: Duration)
   \<and> categorizeError sample_lib 503 [] ''insufficient_quota'' Map.empty =
     (False, ''Insufficient quota. Please check your OpenRouter account limits.'', 30 * Second)
   \<and> 0 < sint (30 * Second :: Duration)"
  by (simp add: categorizeError_def status_table_def sample_lib_def lower_char_def
      Header_Get_def Second_def)

text \<open>
  Claim C6. Whatever the status code, the error code and the headers: when the
  lower-cased error type is \<^verbatim>\<open>insufficient_quota\<close> the classifier answers not
  retryable, with the quota message; when it is \<^verbatim>\<open>model_overloaded\<close>, retryable after
  30 seconds, with the overload message; when it is \<^verbatim>\<open>model_unavailable\<close>, retryable
  after 60 seconds, with the message that the model is unavailable.
\<close>

theorem categorizeError_errorType_override:
  "(ToLower lib errorType = ''insufficient_quota'' \<longrightarrow>
      fst (categorizeError lib statusCode errorCode errorType headers) = False
      \<and> fst (snd (categorizeError lib statusCode errorCode errorType headers)) =
          ''Insufficient quota. Please check your OpenRouter account limits.'')
   \<and> (ToLower lib errorType = ''model_overloaded'' \<longrightarrow>
      categorizeError lib statusCode errorCode errorType headers =
        (True, ''The AI model is currently overloaded. Please try again in a few moments.'',
         30 * Second))
   \<and> (ToLower lib errorType = ''model_unavailable'' \<longrightarrow>
      categorizeError lib statusCode errorCode errorType headers =
        (True, ''The AI model is temporarily unavailable. Please try a different model or wait a few moments.'',
         60 * Second))"
  by (cases "status_table lib statusCode errorCode headers") (simp add: categorizeError_def)

theorem categorizeError_errorType_override_witness:
  "(ToLower sample_lib ''Insufficient_Quota'' = ''insufficient_quota''
      \<and> fst (categorizeError sample_lib 500 [] ''Insufficient_Quota'' Map.empty) = False
      \<and> fst (snd (categorizeError sample_lib 500 [] ''Insufficient_Quota'' Map.empty)) =
          ''Insufficient quota. Please check your OpenRouter account limits.'')
   \<and> (ToLower sample_lib ''model_overloaded'' = ''model_overloaded''
      \<and> categorizeError sample_lib 403 [] ''model_overloaded'' Map.empty =
        (True, ''The AI model is currently overloaded. Please try again in a few moments.'',
         30 * Second))
   \<and> (ToLower sample_lib ''MODEL_UNAVAILABLE'' = ''model_unavailable''
      \<and> categorizeError sample_lib 200 [] ''MODEL_UNAVAILABLE'' Map.empty =
        (True, ''The AI model is temporarily unavailable. Please try a different model or wait a few moments.'',
         60 * Second))"
proof -
  have q: "ToLower sample_lib ''Insufficient_Quota'' = ''insufficient_quota''"
    by (simp add: sample_lib_def lower_char_def)
  have ov: "ToLower sample_lib ''model_overloaded'' = ''model_overloaded''"
    by (simp add: sample_lib_def lower_char_def)
  have un: "ToLower sample_lib ''MODEL_UNAVAILABLE'' = ''model_unavailable''"
    by (simp add: sample_lib_def lower_char_def)
  from q ov un
    categorizeError_errorType_override [of sample_lib "''Insufficient_Quota''" 500 "[]" Map.empty]
    categorizeError_errorType_override [of sample_lib "''model_overloaded''" 403 "[]" Map.empty]
    categorizeError_errorType_override [of sample_lib "''MODEL_UNAVAILABLE''" 200 "[]" Map.empty]
  show ?thesis by blast
qed

text \<open>
  Claim C7. The claim (at status 429 the classifier always answers retryable, with the
  seconds of a parseable \<^verbatim>\<open>Retry-After\<close> header as the delay and 60 seconds
  otherwise) fails in three ways: the header \<^verbatim>\<open>Retry-After: 0\<close> parses to 0 and the
  delay is the default of 60 seconds, not 0; the error type \<^verbatim>\<open>insufficient_quota\<close>
  turns the answer into not retryable; and the product of the seconds and
  \<^verbatim>\<open>time.Second\<close> wraps around in 64 bits, so that 9223372037 seconds become a
  negative delay.
\<close>

theorem categorizeError_429_counterexample:
  "Atoi (Header_Get [''Retry-After'' \<mapsto> [''0'']] ''Retry-After'') = Some 0
   \<and> snd (snd (categorizeError sample_lib 429 [] [] [''Retry-After'' \<mapsto> [''0'']])) = 60 * Second
   \<and> 60 * Second \<noteq> word_of_int 0 * Second
   \<and> \<not> fst (categorizeError sample_lib 429 [] ''insufficient_quota'' Map.empty)
   \<and> Atoi (Header_Get [''Retry-After'' \<mapsto> [''9223372037'']] ''Retry-After'') = Some 9223372037
   \<and> sint (snd (snd (categorizeError sample_lib 429 [] [] [''Retry-After'' \<mapsto> [''9223372037'']])))
       = - 9223372036709551616"
  by (simp add: categorizeError_def status_table_def sample_lib_def lower_char_def
      Header_Get_def Atoi_def is_digit_def digit_val_def Second_def)

text \<open>
  Claim C7, amended. At status 429, when the lower-cased error type is none of
  \<^verbatim>\<open>insufficient_quota\<close>, \<^verbatim>\<open>model_overloaded\<close> and \<^verbatim>\<open>model_unavailable\<close>,
  the classifier answers retryable with the rate-limit message, and the delay is the
  number of the \<^verbatim>\<open>Retry-After\<close> header times one second, computed in 64 bits with
  wrap-around, when the header is present, parses as an integer and that product is not
  zero; the delay is 60 seconds otherwise. So \<^verbatim>\<open>Retry-After: 60\<close> gives 60 seconds,
  and so does a missing header.
\<close>

theorem categorizeError_429:
  "ToLower lib errorType \<noteq> ''insufficient_quota'' \<Longrightarrow>
   ToLower lib errorType \<noteq> ''model_overloaded'' \<Longrightarrow>
   ToLower lib errorType \<noteq> ''model_unavailable'' \<Longrightarrow>
   categorizeError lib 429 errorCode errorType headers =
     (True, ''Rate limit exceeded. Please wait a moment before trying again.'',
      case Atoi (Header_Get headers ''Retry-After'') of
        Some seconds \<Rightarrow>
          if (word_of_int seconds :: Duration) * Second = 0 then 60 * Second
          else word_of_int seconds * Second
      | None \<Rightarrow> 60 * Second)"
  by (simp add: categorizeError_def status_table_def Let_def Atoi_Nil split: option.splits)

theorem categorizeError_429_witness:
  "ToLower sample_lib ''rate_limit_exceeded'' \<noteq> ''insufficient_quota''
   \<and> ToLower sample_lib ''rate_limit_exceeded'' \<noteq> ''model_overloaded''
   \<and> ToLower sample_lib ''rate_limit_exceeded'' \<noteq> ''model_unavailable''
   \<and> categorizeError sample_lib 429 ''rate_limit_exceeded'' ''rate_limit_exceeded''
        [''Retry-After'' \<mapsto> [''60'']] =
       (True, ''Rate limit exceeded. Please wait a moment before trying again.'', 60 * Second)
   \<and> categorizeError sample_lib 429 ''rate_limit_exceeded'' ''rate_limit_exceeded'' Map.empty =
       (True, ''Rate limit exceeded. Please wait a moment before trying again.'', 60 * Second)
   \<and> categorizeError sample_lib 429 ''rate_limit_exceeded'' ''rate_limit_exceeded''
        [''Retry-After'' \<mapsto> [''5'']] =
       (True, ''Rate limit exceeded. Please wait a moment before trying again.'', 5 * Second)"
proof -
  have a: "ToLower sample_lib ''rate_limit_exceeded'' \<noteq> ''insufficient_quota''"
    and b: "ToLower sample_lib ''rate_limit_exceeded'' \<noteq> ''model_overloaded''"
    and c: "ToLower sample_lib ''rate_limit_exceeded'' \<noteq> ''model_unavailable''"
    by (simp_all add: sample_lib_def lower_char_def)
  have h60: "Atoi (Header_Get [''Retry-After'' \<mapsto> [''60'']] ''Retry-After'') = Some 60"
    and h5: "Atoi (Header_Get [''Retry-After'' \<mapsto> [''5'']] ''Retry-After'') = Some 5"
    and h0: "Atoi (Header_Get Map.empty ''Retry-After'') = None"
    by (simp_all add: Header_Get_def Atoi_def is_digit_def digit_val_def)
  from a b c
    categorizeError_429 [OF a b c, of "''rate_limit_exceeded''" "[''Retry-After'' \<mapsto> [''60'']]"]
    categorizeError_429 [OF a b c, of "''rate_limit_exceeded''" Map.empty]
    categorizeError_429 [OF a b c, of "''rate_limit_exceeded''" "[''Retry-After'' \<mapsto> [''5'']]"]
  show ?thesis
    unfolding h60 h5 h0 by (simp add: Second_def)
qed

section \<open>Properties of the retry executor\<close>

subsection \<open>One iteration\<close>

lemma WithRetry_loop_exit:
  "MaxRetries config < attempt \<Longrightarrow> WithRetry_loop env config attempt lastErr s = (lastErr, s)"
  by (subst WithRetry_loop.simps) simp

lemma WithRetry_loop_step:
  assumes le: "attempt \<le> MaxRetries config"
  shows "WithRetry_loop env config attempt lastErr s =
     (case fn env s of
        (None, s1) \<Rightarrow> (None, s1)
      | (Some err, s1) \<Rightarrow>
          if gives_up config attempt err then (Some err, s1)
          else (case wait_step env config attempt err s1 of
                  (d, Some c, s2) \<Rightarrow> (Some (CtxErr c), s2)
                | (d, None, s2) \<Rightarrow> WithRetry_loop env config (attempt + 1) (Some err) s2))"
proof -
  obtain r s1 where f: "fn env s = (r, s1)" by (cases "fn env s") auto
  show ?thesis
  proof (cases r)
    case None
    with f le show ?thesis by (subst WithRetry_loop.simps) simp
  next
    case (Some err)
    show ?thesis
    proof (cases "attempt = MaxRetries config")
      case True
      with f Some show ?thesis by (subst WithRetry_loop.simps) (simp add: gives_up_def)
    next
      case ne: False
      show ?thesis
      proof (cases err)
        case (Structured orErr)
        show ?thesis
        proof (cases "IsRetryable orErr")
          case False
          with f Some ne le Structured show ?thesis
            by (subst WithRetry_loop.simps) (simp add: gives_up_def)
        next
          case True
          with f Some ne le Structured show ?thesis
            by (subst WithRetry_loop.simps)
               (simp add: gives_up_def wait_step_def split: prod.splits option.splits)
        qed
      next
        case (CtxErr c)
        with f Some ne le show ?thesis
          by (subst WithRetry_loop.simps)
             (simp add: gives_up_def wait_step_def split: prod.splits option.splits)
      next
        case (ErrorString t)
        with f Some ne le show ?thesis
          by (subst WithRetry_loop.simps)
             (simp add: gives_up_def wait_step_def split: prod.splits option.splits)
      next
        case (Errorf t e)
        with f Some ne le show ?thesis
          by (subst WithRetry_loop.simps)
             (simp add: gives_up_def wait_step_def split: prod.splits option.splits)
      qed
    qed
  qed
qed

lemma recording_fn:
  "fn (recording env) (tr, s) = (case fn env s of (r, s') \<Rightarrow> (r, (tr @ [Invoked r], s')))"
  by (simp add: recording_def)

lemma recording_wait_step:
  "wait_step (recording env) config attempt err (tr, s) =
     (case wait_step env config attempt err s of
        (d, c, s') \<Rightarrow> (d, c, (tr @ [Waited d c], s')))"
  by (simp add: wait_step_def recording_def split: prod.splits error.splits)

lemma invocations_append: "invocations (xs @ ys) = invocations xs @ invocations ys"
  by (induction xs rule: invocations.induct) simp_all

lemma never_cancelled_wait_step:
  "never_cancelled env \<Longrightarrow> \<exists>d s2. wait_step env config attempt err s1 = (d, None, s2)"
  by (auto simp: never_cancelled_def wait_step_def split: prod.splits error.splits)
     (metis eq_fst_iff)+

lemma sample_env_simps:
  "fn (sample_env err cancel) n = (Some err, n + 1)"
  "calculateDelay (sample_env err cancel) a c s = (BaseDelay c, s)"
  "wait (sample_env err cancel) d s = (cancel, s)"
  by (simp_all add: sample_env_def)

lemma sample_wait_step:
  "wait_step (sample_env err cancel) config attempt e s =
     ((case e of
         Structured orErr \<Rightarrow>
           if 0 < sint (RetryAfter orErr) then RetryAfter orErr else BaseDelay config
       | _ \<Rightarrow> BaseDelay config), cancel, s)"
  by (simp add: wait_step_def sample_env_simps split: error.splits)

subsection \<open>Exhausting the retries\<close>

lemma loop_always_fails:
  assumes fails: "always_retryable env" and waits: "never_cancelled env"
  shows "attempt \<le> MaxRetries config \<Longrightarrow>
    \<exists>e tr' s'. WithRetry_loop (recording env) config attempt lastErr (tr, s) = (Some e, (tr @ tr', s'))
       \<and> int (length (invocations tr')) = MaxRetries config - attempt + 1
       \<and> last (invocations tr') = Some e"
proof (induction "nat (MaxRetries config - attempt)" arbitrary: attempt lastErr tr s)
  case 0
  then have at: "attempt = MaxRetries config" by simp
  from fails obtain orErr s1 where f: "fn env s = (Some (Structured orErr), s1)"
    unfolding always_retryable_def by blast
  have "WithRetry_loop (recording env) config attempt lastErr (tr, s)
          = (Some (Structured orErr), (tr @ [Invoked (Some (Structured orErr))], s1))"
    using at f by (simp add: WithRetry_loop_step recording_fn gives_up_def)
  then show ?case using at by simp
next
  case (Suc n)
  then have lt: "attempt < MaxRetries config"
    and n: "n = nat (MaxRetries config - (attempt + 1))"
    by simp_all
  from fails obtain orErr s1 where f: "fn env s = (Some (Structured orErr), s1)"
      and retry: "IsRetryable orErr"
    unfolding always_retryable_def by blast
  from never_cancelled_wait_step [OF waits]
  obtain d s2 where w: "wait_step env config attempt (Structured orErr) s1 = (d, None, s2)"
    by blast
  let ?tr1 = "tr @ [Invoked (Some (Structured orErr)), Waited d None]"
  have step: "WithRetry_loop (recording env) config attempt lastErr (tr, s)
          = WithRetry_loop (recording env) config (attempt + 1) (Some (Structured orErr)) (?tr1, s2)"
    using lt f retry w
    by (simp add: WithRetry_loop_step recording_fn recording_wait_step gives_up_def)
  from lt have le: "attempt + 1 \<le> MaxRetries config" by simp
  from Suc.hyps(1) [OF n le, of "Some (Structured orErr)" ?tr1 s2]
  obtain e tr' s' where
    r: "WithRetry_loop (recording env) config (attempt + 1) (Some (Structured orErr)) (?tr1, s2)
          = (Some e, (?tr1 @ tr', s'))"
    and len: "int (length (invocations tr')) = MaxRetries config - (attempt + 1) + 1"
    and la: "last (invocations tr') = Some e"
    by blast
  from len le have ne: "invocations tr' \<noteq> []" by auto
  let ?tr' = "[Invoked (Some (Structured orErr)), Waited d None] @ tr'"
  have "WithRetry_loop (recording env) config attempt lastErr (tr, s) = (Some e, (tr @ ?tr', s'))"
    using step r by simp
  moreover have "int (length (invocations ?tr')) = MaxRetries config - attempt + 1"
    using len by simp
  moreover have "last (invocations ?tr') = Some e"
    using la ne by simp
  ultimately show ?case by blast
qed

text \<open>
  Claim C4. For a configuration with \<open>MaxRetries \<ge> 0\<close>, an operation that fails with a
  retryable structured error at every call, and a context that is never done during a
  wait: the executor returns an error, the operation has been called exactly
  \<open>1 + MaxRetries\<close> times, and the error returned is the result of the last call.
\<close>

theorem WithRetry_exhausts_retries:
  assumes "always_retryable env" and "never_cancelled env"
    and "0 \<le> MaxRetries config"
  shows "\<exists>e tr s'. WithRetry (recording env) (Some config) ([], s) = (Some e, (tr, s'))
       \<and> int (length (invocations tr)) = 1 + MaxRetries config
       \<and> last (invocations tr) = Some e"
proof -
  from loop_always_fails [OF assms(1,2), of 0 config None "[]" s] assms(3)
  show ?thesis by (auto simp: WithRetry_def)
qed

theorem WithRetry_exhausts_retries_witness:
  "always_retryable (sample_env (Structured retryable_error) None)
   \<and> never_cancelled (sample_env (Structured retryable_error) None)
   \<and> 0 \<le> MaxRetries (sample_config 2)
   \<and> (\<exists>e tr s'. WithRetry (recording (sample_env (Structured retryable_error) None))
                    (Some (sample_config 2)) ([], 0) = (Some e, (tr, s'))
         \<and> int (length (invocations tr)) = 1 + MaxRetries (sample_config 2)
         \<and> last (invocations tr) = Some e)
   \<and> WithRetry (recording (sample_env (Structured retryable_error) None))
        (Some (sample_config 2)) ([], 0)
      = (Some (Structured retryable_error),
         ([Invoked (Some (Structured retryable_error)), Waited (100 * Millisecond) None,
           Invoked (Some (Structured retryable_error)), Waited (100 * Millisecond) None,
           Invoked (Some (Structured retryable_error))], 3))"
proof -
  have a: "always_retryable (sample_env (Structured retryable_error) None)"
    by (simp add: always_retryable_def sample_env_simps retryable_error_def)
  have b: "never_cancelled (sample_env (Structured retryable_error) None)"
    by (simp add: never_cancelled_def sample_env_simps)
  have c: "0 \<le> MaxRetries (sample_config 2)" by (simp add: sample_config_def)
  have run: "WithRetry (recording (sample_env (Structured retryable_error) None))
        (Some (sample_config 2)) ([], 0)
      = (Some (Structured retryable_error),
         ([Invoked (Some (Structured retryable_error)), Waited (100 * Millisecond) None,
           Invoked (Some (Structured retryable_error)), Waited (100 * Millisecond) None,
           Invoked (Some (Structured retryable_error))], 3))"
    by (simp add: WithRetry_def WithRetry_loop_step recording_fn recording_wait_step gives_up_def
        sample_wait_step sample_env_simps sample_config_def retryable_error_def)
  from a b c run WithRetry_exhausts_retries [OF a b c, of 0] show ?thesis by blast
qed

subsection \<open>Cancellation during a wait\<close>

lemma loop_cancelled:
  "WithRetry_loop (recording env) config attempt lastErr (tr, s) = (r, (tr2, s2)) \<Longrightarrow>
   \<exists>tr'. tr2 = tr @ tr'
     \<and> (\<forall>d c. Waited d (Some c) \<in> set tr' \<longrightarrow> r = Some (CtxErr c) \<and> last tr' = Waited d (Some c))"
proof (induction "nat (MaxRetries config + 1 - attempt)" arbitrary: attempt lastErr tr s)
  case 0
  then have "MaxRetries config < attempt" by simp
  with 0 show ?case by (simp add: WithRetry_loop_exit)
next
  case (Suc n)
  then have le: "attempt \<le> MaxRetries config"
    and n: "n = nat (MaxRetries config + 1 - (attempt + 1))" by simp_all
  note run = Suc.prems
  obtain res s1 where f: "fn env s = (res, s1)" by (cases "fn env s") auto
  show ?case
  proof (cases res)
    case None
    with run le f have "tr2 = tr @ [Invoked None]"
      by (auto simp: WithRetry_loop_step recording_fn)
    then show ?thesis by simp
  next
    case (Some err)
    show ?thesis
    proof (cases "gives_up config attempt err")
      case True
      with run le f Some have "tr2 = tr @ [Invoked (Some err)]"
        by (auto simp: WithRetry_loop_step recording_fn)
      then show ?thesis by simp
    next
      case False
      obtain d c s3 where w: "wait_step env config attempt err s1 = (d, c, s3)"
        by (cases "wait_step env config attempt err s1") auto
      show ?thesis
      proof (cases c)
        case (Some cerr)
        with run le f \<open>res = Some err\<close> False w
        have "tr2 = tr @ [Invoked (Some err), Waited d (Some cerr)]" and "r = Some (CtxErr cerr)"
          by (auto simp: WithRetry_loop_step recording_fn recording_wait_step)
        then show ?thesis by auto
      next
        case None
        let ?tr1 = "tr @ [Invoked (Some err), Waited d None]"
        from run le f \<open>res = Some err\<close> False w None
        have "WithRetry_loop (recording env) config (attempt + 1) (Some err) (?tr1, s3)
                = (r, (tr2, s2))"
          by (simp add: WithRetry_loop_step recording_fn recording_wait_step)
        from Suc.hyps(1) [OF n this]
        obtain tr' where t: "tr2 = ?tr1 @ tr'"
          and c: "\<forall>d c. Waited d (Some c) \<in> set tr' \<longrightarrow>
                    r = Some (CtxErr c) \<and> last tr' = Waited d (Some c)"
          by blast
        let ?tr' = "[Invoked (Some err), Waited d None] @ tr'"
        have "tr2 = tr @ ?tr'" using t by simp
        moreover have "\<forall>d c. Waited d (Some c) \<in> set ?tr' \<longrightarrow>
            r = Some (CtxErr c) \<and> last ?tr' = Waited d (Some c)"
        proof (intro allI impI)
          fix d' c'
          assume "Waited d' (Some c') \<in> set ?tr'"
          then have m: "Waited d' (Some c') \<in> set tr'" by auto
          then have "tr' \<noteq> []" by auto
          with c m show "r = Some (CtxErr c') \<and> last ?tr' = Waited d' (Some c')" by simp
        qed
        ultimately show ?thesis by blast
      qed
    qed
  qed
qed

text \<open>
  Claim C5. In every run of the executor: if the context is done during a wait (the
  trace holds a wait of some duration \<open>d\<close> that ended with the context error \<open>c\<close>),
  then the executor returns that context error, not the error of the operation, and
  the wait is the last thing that happened: no further call, no further wait. Both
  kinds of wait, for the \<open>RetryAfter\<close> of the error and for the computed backoff, go
  through \<open>wait\<close>, so both are covered; the examples after the theorem run one of each
  kind.
\<close>

theorem WithRetry_cancelled_wait:
  assumes "WithRetry (recording env) config ([], s) = (r, (tr, s'))"
    and "Waited d (Some c) \<in> set tr"
  shows "r = Some (CtxErr c) \<and> last tr = Waited d (Some c)"
  using loop_cancelled [of env _ 0 None "[]" s r tr s'] assms
  by (auto simp: WithRetry_def)

theorem WithRetry_cancelled_wait_witness:
  "(WithRetry (recording (sample_env (Structured retryable_error) (Some DeadlineExceeded)))
       (Some (sample_config 5)) ([], 0)
     = (Some (CtxErr DeadlineExceeded),
        ([Invoked (Some (Structured retryable_error)),
          Waited (100 * Millisecond) (Some DeadlineExceeded)], 1))
    \<and> Waited (100 * Millisecond) (Some DeadlineExceeded)
        \<in> set [Invoked (Some (Structured retryable_error)),
                Waited (100 * Millisecond) (Some DeadlineExceeded)]
    \<and> Some (CtxErr DeadlineExceeded) = Some (CtxErr DeadlineExceeded)
    \<and> last [Invoked (Some (Structured retryable_error)),
             Waited (100 * Millisecond) (Some DeadlineExceeded)]
        = Waited (100 * Millisecond) (Some DeadlineExceeded))
   \<and> (WithRetry (recording (sample_env (Structured rate_limit_error) (Some Canceled)))
       (Some (sample_config 5)) ([], 0)
     = (Some (CtxErr Canceled),
        ([Invoked (Some (Structured rate_limit_error)), Waited (60 * Second) (Some Canceled)], 1))
    \<and> Waited (60 * Second) (Some Canceled)
        \<in> set [Invoked (Some (Structured rate_limit_error)), Waited (60 * Second) (Some Canceled)]
    \<and> last [Invoked (Some (Structured rate_limit_error)), Waited (60 * Second) (Some Canceled)]
        = Waited (60 * Second) (Some Canceled))"
proof -
  have run1: "WithRetry (recording (sample_env (Structured retryable_error) (Some DeadlineExceeded)))
       (Some (sample_config 5)) ([], 0)
     = (Some (CtxErr DeadlineExceeded),
        ([Invoked (Some (Structured retryable_error)),
          Waited (100 * Millisecond) (Some DeadlineExceeded)], 1))"
    by (simp add: WithRetry_def WithRetry_loop_step recording_fn recording_wait_step gives_up_def
        sample_wait_step sample_env_simps sample_config_def retryable_error_def)
  have m1: "Waited (100 * Millisecond) (Some DeadlineExceeded)
        \<in> set [Invoked (Some (Structured retryable_error)),
                Waited (100 * Millisecond) (Some DeadlineExceeded)]"
    by simp
  have run2: "WithRetry (recording (sample_env (Structured rate_limit_error) (Some Canceled)))
       (Some (sample_config 5)) ([], 0)
     = (Some (CtxErr Canceled),
        ([Invoked (Some (Structured rate_limit_error)), Waited (60 * Second) (Some Canceled)], 1))"
    by (simp add: WithRetry_def WithRetry_loop_step recording_fn recording_wait_step gives_up_def
        sample_wait_step sample_env_simps sample_config_def rate_limit_error_def Second_def)
  have m2: "Waited (60 * Second) (Some Canceled)
        \<in> set [Invoked (Some (Structured rate_limit_error)), Waited (60 * Second) (Some Canceled)]"
    by simp
  from run1 m1 run2 m2
    WithRetry_cancelled_wait [OF run1 m1] WithRetry_cancelled_wait [OF run2 m2]
  show ?thesis by blast
qed

subsection \<open>Errors that are not retryable, and a negative number of retries\<close>

text \<open>
  Claim C9. The claim (for every configuration, an operation whose first call fails
  with a structured error that is not retryable is called exactly once and that error
  is returned) fails for a configuration with a negative \<open>MaxRetries\<close>: the loop
  body never runs, the operation is not called and the executor returns
  \<^verbatim>\<open>nil\<close>.
\<close>

theorem WithRetry_not_retryable_counterexample:
  "fn (sample_env (Structured fatal_error) None) 0 = (Some (Structured fatal_error), 1)
   \<and> \<not> IsRetryable fatal_error
   \<and> WithRetry (recording (sample_env (Structured fatal_error) None))
        (Some (sample_config (- 1))) ([], 0) = (None, ([], 0))"
  by (simp add: WithRetry_def WithRetry_loop_exit sample_env_simps sample_config_def
      fatal_error_def)

text \<open>
  Claim C9, amended. For every configuration with \<open>MaxRetries \<ge> 0\<close> and every
  operation whose first call fails with a structured error that is not retryable, the
  executor calls the operation exactly once and returns that error at once: the trace
  of the run is that single call, without a wait.
\<close>

theorem WithRetry_not_retryable:
  assumes "0 \<le> MaxRetries config"
    and "fn env s = (Some (Structured orErr), s1)" and "\<not> IsRetryable orErr"
  shows "WithRetry (recording env) (Some config) ([], s)
           = (Some (Structured orErr), ([Invoked (Some (Structured orErr))], s1))"
  using assms by (simp add: WithRetry_def WithRetry_loop_step recording_fn gives_up_def)

theorem WithRetry_not_retryable_witness:
  "0 \<le> MaxRetries (sample_config 3)
   \<and> fn (sample_env (Structured fatal_error) None) 0 = (Some (Structured fatal_error), 1)
   \<and> \<not> IsRetryable fatal_error
   \<and> WithRetry (recording (sample_env (Structured fatal_error) None)) (Some (sample_config 3)) ([], 0)
       = (Some (Structured fatal_error), ([Invoked (Some (Structured fatal_error))], 1))"
proof -
  have a: "0 \<le> MaxRetries (sample_config 3)" by (simp add: sample_config_def)
  have b: "fn (sample_env (Structured fatal_error) None) 0 = (Some (Structured fatal_error), 1)"
    by (simp add: sample_env_simps)
  have c: "\<not> IsRetryable fatal_error" by (simp add: fatal_error_def)
  from a b c WithRetry_not_retryable [OF a b c] show ?thesis by blast
qed

text \<open>
  Claim C10. With a configuration that is not \<^verbatim>\<open>nil\<close> and whose \<open>MaxRetries\<close> is
  negative, whatever the operation and the context: the operation is not called (the
  trace stays empty, the world is unchanged) and the executor returns \<^verbatim>\<open>nil\<close>.
\<close>

theorem WithRetry_negative_MaxRetries:
  "MaxRetries config < 0 \<Longrightarrow>
   WithRetry (recording env) (Some config) ([], s) = (None, ([], s))"
  by (simp add: WithRetry_def WithRetry_loop_exit)

theorem WithRetry_negative_MaxRetries_witness:
  "MaxRetries (sample_config (- 3)) < 0
   \<and> WithRetry (recording (sample_env (Structured retryable_error) (Some Canceled)))
        (Some (sample_config (- 3))) ([], 7) = (None, ([], 7))"
proof -
  have a: "MaxRetries (sample_config (- 3)) < 0" by (simp add: sample_config_def)
  from a WithRetry_negative_MaxRetries
         [OF a, of "sample_env (Structured retryable_error) (Some Canceled)" 7]
  show ?thesis by simp
qed

section \<open>Properties of the response handling\<close>

text \<open>
  Claim C2. When the transport fails, \<^verbatim>\<open>doRequest\<close> returns the failure wrapped by
  \<^verbatim>\<open>fmt.Errorf("request failed: %w", err)\<close>, which is not a structured error: the
  value \<^verbatim>\<open>WrapNetworkError(err)\<close> that the claim describes is built and given to
  the logger only.
\<close>

theorem doRequest_transport_failure:
  "doRequest lib result (Inl err) = Inl (Errorf ''request failed: '' err)
   \<and> doRequest lib result (Inl err) \<noteq> Inl (Structured (WrapNetworkError err))"
  by (simp add: doRequest_def)




end
